theory Spec2Isabelle
  imports Main
begin

section \<open>Data model\<close>

text \<open>
  The route handlers of the repository (\<^verbatim>\<open>app/api/.../route.ts\<close>) and the bulk handler of
  \<^verbatim>\<open>components/claimable-balances.tsx\<close> are embedded as HOL functions.

  Conventions of the embedding:
  \<^item> a JavaScript string is a \<open>string\<close>; the strings the handlers measure are ASCII, so
    \<open>length\<close> is the \<^verbatim>\<open>.length\<close> of the source;
  \<^item> a field that is absent from a JSON object (\<^verbatim>\<open>undefined\<close>) is the empty string: every
    test the handlers apply to such a field (\<^verbatim>\<open>!x\<close>, \<^verbatim>\<open>x &&\<close>, \<^verbatim>\<open>x || d\<close>, \<^verbatim>\<open>===\<close> against
    a non-empty string) gives the same answer for \<^verbatim>\<open>undefined\<close> and for \<^verbatim>\<open>""\<close>;
  \<^item> a thrown exception is a value of type \<open>thrown\<close>, and a call that may throw returns
    a sum with the exception on the left;
  \<^item> the ledger network (Horizon) and the stellar-sdk are outside the repository: their
    answers are parameters (\<open>gateway\<close>, \<open>sdk\<close>), and every handler returns, next to its
    HTTP response, the list of Horizon calls it issued, in order.
\<close>

datatype asset = Native | Asset string string

datatype operation =
    ChangeTrust asset string
  | ClaimClaimableBalance string
  | Payment string asset string

text \<open>The network passphrase constants of the SDK, by the names the source uses.\<close>

datatype passphrase =
    Networks_PUBLIC
  | Networks_TESTNET
  | Networks_PUBLIC_NETWORK_PASSPHRASE
  | Networks_TESTNET_NETWORK_PASSPHRASE

record keypair =
  publicKey :: string
  secret :: string

record balance_line =
  asset_type :: string
  asset_code :: string
  asset_issuer :: string
  balance :: string

record account =
  account_id :: string
  sequence :: string
  balances :: "balance_line list"

record claimant =
  destination :: string

record claimable_balance =
  cb_id :: string
  cb_asset :: string
  cb_amount :: string
  cb_sponsor :: string
  cb_claimants :: "claimant list"

record transaction =
  tx_source :: account
  tx_fee :: string
  tx_networkPassphrase :: passphrase
  tx_operations :: "operation list"
  tx_timeout :: nat
  tx_signatures :: "keypair list"

text \<open>
  What Horizon attaches to a rejected submission: \<^verbatim>\<open>e.response.status\<close>,
  \<^verbatim>\<open>e.response.data.title\<close> and \<^verbatim>\<open>e.response.data.extras.result_codes\<close>.
\<close>

record result_codes =
  rc_transaction :: string
  rc_operations :: "string list"

record http_response =
  resp_status :: nat
  resp_title :: string
  resp_result_codes :: "result_codes option"

text \<open>
  A thrown value: an \<^verbatim>\<open>Error\<close> object with its message and, for an HTTP failure, the
  response; or some other object, without \<^verbatim>\<open>message\<close> and \<^verbatim>\<open>response\<close>.
\<close>

datatype thrown = Error string "http_response option" | NotAnError

text \<open>The stellar-sdk functions that can throw, and \<^verbatim>\<open>JSON.stringify\<close> on result codes.\<close>

record sdk =
  fromSecret :: "string \<Rightarrow> thrown + keypair"
  asset_error :: "string \<Rightarrow> string \<Rightarrow> thrown option"
  operation_error :: "operation \<Rightarrow> thrown option"
  JSON_stringify :: "result_codes \<Rightarrow> string"

text \<open>
  The page of records a claimable-balance query answers with, under either container
  name (\<^verbatim>\<open>_embedded.records\<close> or \<^verbatim>\<open>records\<close>).
\<close>

record balances_page =
  embedded_records :: "claimable_balance list option"
  page_records :: "claimable_balance list option"

record gateway =
  loadAccount :: "string \<Rightarrow> string \<Rightarrow> thrown + account"
  claimableBalance :: "string \<Rightarrow> string \<Rightarrow> thrown + claimable_balance"
  claimableBalances_claimant :: "string \<Rightarrow> string \<Rightarrow> nat \<Rightarrow> thrown + balances_page"
  submitTransaction :: "string \<Rightarrow> transaction \<Rightarrow> thrown + string"

datatype call =
    LoadAccount string string
  | ClaimableBalance string string
  | ClaimableBalancesForClaimant string string nat
  | SubmitTransaction string transaction

record listed_balance =
  lb_id :: string
  lb_amount :: string
  lb_asset :: string
  lb_assetIssuer :: string
  lb_sponsor :: string

record listed_trustline =
  lt_assetCode :: string
  lt_assetIssuer :: string
  lt_balance :: string

text \<open>
  \<^verbatim>\<open>NextResponse.json\<close>: an error body with its status, the success body of the
  transaction routes (message and hash, status 200), and the two listings.
\<close>

datatype response =
    Json_error nat string
  | Json_success string string
  | Json_balances "listed_balance list"
  | Json_trustlines "listed_trustline list"

section \<open>Helpers shared by the routes\<close>

definition SERVERS :: "string \<Rightarrow> string" where
  "SERVERS network =
     (if network = ''public'' then ''https://horizon.stellar.org''
      else ''https://horizon-testnet.stellar.org'')"

definition NETWORKS :: "string \<Rightarrow> passphrase" where
  "NETWORKS network = (if network = ''public'' then Networks_PUBLIC else Networks_TESTNET)"

definition BASE_FEE :: string where
  "BASE_FEE = ''100''"

definition startsWith :: "string \<Rightarrow> string \<Rightarrow> bool" where
  "startsWith s p = (take (length p) s = p)"

text \<open>\<^verbatim>\<open>s.includes(p)\<close>: \<open>p\<close> occurs in \<open>s\<close> as a contiguous substring.\<close>

fun includes_str :: "string \<Rightarrow> string \<Rightarrow> bool" where
  "includes_str [] p = (p = [])"
| "includes_str (c # s) p = (startsWith (c # s) p \<or> includes_str s p)"

text \<open>
  \<^verbatim>\<open>s.split(c)\<close> for a one-character separator: the pieces between the separators, so
  one piece more than there are separators (and \<open>[[]]\<close> for the empty string).
\<close>

fun split :: "char \<Rightarrow> string \<Rightarrow> string list" where
  "split c [] = [[]]"
| "split c (x # xs) =
     (if x = c then [] # split c xs
      else (case split c xs of [] \<Rightarrow> [[x]] | w # ws \<Rightarrow> (x # w) # ws))"

text \<open>\<^verbatim>\<open>e instanceof Error ? e.message : d\<close>\<close>

fun message_or :: "thrown \<Rightarrow> string \<Rightarrow> string" where
  "message_or (Error m r) d = m"
| "message_or NotAnError d = d"

text \<open>\<^verbatim>\<open>new Asset(code, issuer)\<close>, which throws on a code or issuer the SDK refuses.\<close>

definition new_Asset :: "sdk \<Rightarrow> string \<Rightarrow> string \<Rightarrow> thrown + asset" where
  "new_Asset k code issuer =
     (case asset_error k code issuer of Some e \<Rightarrow> Inl e | None \<Rightarrow> Inr (Asset code issuer))"

text \<open>
  \<^verbatim>\<open>builder.addOperation(Operation.f(...))\<close> for each operation in turn: the first
  operation the SDK refuses throws, and nothing after it is evaluated.
\<close>

fun addOperations :: "sdk \<Rightarrow> operation list \<Rightarrow> thrown + operation list" where
  "addOperations k [] = Inr []"
| "addOperations k (op # ops) =
     (case operation_error k op of
        Some e \<Rightarrow> Inl e
      | None \<Rightarrow> (case addOperations k ops of Inl e \<Rightarrow> Inl e | Inr r \<Rightarrow> Inr (op # r)))"

text \<open>
  \<^verbatim>\<open>new TransactionBuilder(account, {fee, networkPassphrase})\<close>, the operations,
  \<^verbatim>\<open>.setTimeout(t).build()\<close> and \<^verbatim>\<open>transaction.sign(keypair)\<close>.
\<close>

definition build_and_sign ::
  "sdk \<Rightarrow> account \<Rightarrow> string \<Rightarrow> passphrase \<Rightarrow> operation list \<Rightarrow> nat \<Rightarrow> keypair
   \<Rightarrow> thrown + transaction" where
  "build_and_sign k acc fee pass ops t kp =
     (case addOperations k ops of
        Inl e \<Rightarrow> Inl e
      | Inr added \<Rightarrow>
          Inr \<lparr>tx_source = acc, tx_fee = fee, tx_networkPassphrase = pass,
               tx_operations = added, tx_timeout = t, tx_signatures = [kp]\<rparr>)"

text \<open>
  The asset of a claimable-balance record, as the claim and reject routes parse it:
  \<^verbatim>\<open>null\<close> (here \<open>None\<close>) unless the string is non-empty, is not \<^verbatim>\<open>"native"\<close> and splits
  on \<^verbatim>\<open>":"\<close> into exactly two parts.
\<close>

definition parse_asset :: "sdk \<Rightarrow> string \<Rightarrow> thrown + asset option" where
  "parse_asset k a =
     (if a \<noteq> '''' \<and> a \<noteq> ''native'' then
        (case split CHR '':'' a of
           [code, issuer] \<Rightarrow>
             (case new_Asset k code issuer of Inl e \<Rightarrow> Inl e | Inr x \<Rightarrow> Inr (Some x))
         | _ \<Rightarrow> Inr None)
      else Inr None)"

definition MAX_LIMIT :: string where
  "MAX_LIMIT = ''922337203685.4775807''"

section \<open>The transaction routes\<close>

text \<open>
  The \<^verbatim>\<open>catch\<close> of the claim and reject routes around building and submitting:
  the message of the error, replaced by the serialised result codes when the error
  carries a response with result codes; the default \<open>d\<close> for a non-\<^verbatim>\<open>Error\<close>.
\<close>

definition extract_errorMsg :: "sdk \<Rightarrow> string \<Rightarrow> thrown \<Rightarrow> string" where
  "extract_errorMsg k d e =
     (case e of
        NotAnError \<Rightarrow> d
      | Error m r \<Rightarrow>
          (case r of
             None \<Rightarrow> m
           | Some resp \<Rightarrow>
               (case resp_result_codes resp of
                  None \<Rightarrow> m
                | Some rc \<Rightarrow> ''Transaction failed: '' @ JSON_stringify k rc)))"

text \<open>
  The inner \<^verbatim>\<open>try { build; sign; submit; return success } catch (e) { return 400 }\<close> shared in
  shape by the claim, reject and remove routes: \<open>built\<close> is the outcome of building and
  signing, \<open>errorMsg\<close> the route's way to turn the caught value into a message.
\<close>

definition try_submit ::
  "gateway \<Rightarrow> string \<Rightarrow> (thrown \<Rightarrow> string) \<Rightarrow> string \<Rightarrow> call list \<Rightarrow> thrown + transaction
   \<Rightarrow> response \<times> call list" where
  "try_submit gw server errorMsg done calls built =
     (case built of
        Inl e \<Rightarrow> (Json_error 400 (errorMsg e), calls)
      | Inr tx \<Rightarrow>
          (case submitTransaction gw server tx of
             Inl e \<Rightarrow> (Json_error 400 (errorMsg e), calls @ [SubmitTransaction server tx])
           | Inr hash \<Rightarrow> (Json_success done hash, calls @ [SubmitTransaction server tx])))"

subsection \<open>Claim: \<^verbatim>\<open>app/api/claimable/claim/route.ts\<close>\<close>

definition claim_operations :: "asset option \<Rightarrow> string \<Rightarrow> operation list" where
  "claim_operations asset balanceId =
     (case asset of Some a \<Rightarrow> [ChangeTrust a MAX_LIMIT] | None \<Rightarrow> [])
     @ [ClaimClaimableBalance balanceId]"

definition claim_POST ::
  "sdk \<Rightarrow> gateway \<Rightarrow> string \<Rightarrow> string \<Rightarrow> string \<Rightarrow> response \<times> call list" where
  "claim_POST k gw secretKey network balanceId =
     (if secretKey = '''' \<or> network = '''' \<or> balanceId = '''' then
        (Json_error 400 ''Missing required fields'', [])
      else if \<not> startsWith secretKey ''S'' \<or> length secretKey \<noteq> 56 then
        (Json_error 400 ''Invalid secret key format'', [])
      else if network \<noteq> ''public'' \<and> network \<noteq> ''testnet'' then
        (Json_error 400 ''Invalid network'', [])
      else
        (case fromSecret k secretKey of
           Inl e \<Rightarrow> (Json_error 400 ''Invalid secret key format'', [])
         | Inr kp \<Rightarrow>
            (let server = SERVERS network; c1 = [LoadAccount server (publicKey kp)] in
             case loadAccount gw server (publicKey kp) of
               Inl e \<Rightarrow>
                 (Json_error 400 (''Account error: '' @ message_or e ''Failed to load account''),
                  c1)
             | Inr acc \<Rightarrow>
                (let c2 = c1 @ [ClaimableBalance server balanceId] in
                 case claimableBalance gw server balanceId of
                   Inl e \<Rightarrow>
                     (Json_error 400
                        (''Balance error: '' @ message_or e ''Failed to load balance''), c2)
                 | Inr balanceRecord \<Rightarrow>
                    (case parse_asset k (cb_asset balanceRecord) of
                       Inl e \<Rightarrow> (Json_error 500 (message_or e ''Failed to claim balance''), c2)
                     | Inr asset \<Rightarrow>
                         try_submit gw server
                           (extract_errorMsg k ''Failed to claim balance'')
                           ''Balance claimed'' c2
                           (build_and_sign k acc BASE_FEE (NETWORKS network)
                              (claim_operations asset balanceId) 180 kp))))))"

subsection \<open>Reject: \<^verbatim>\<open>app/api/claimable/reject/route.ts\<close>\<close>

text \<open>\<^verbatim>\<open>asset || Asset.native()\<close>\<close>

fun or_native :: "asset option \<Rightarrow> asset" where
  "or_native (Some a) = a"
| "or_native None = Native"

definition reject_operations ::
  "asset option \<Rightarrow> string \<Rightarrow> string \<Rightarrow> string \<Rightarrow> operation list" where
  "reject_operations asset balanceId sponsor amount =
     (case asset of Some a \<Rightarrow> [ChangeTrust a MAX_LIMIT] | None \<Rightarrow> [])
     @ [ClaimClaimableBalance balanceId,
        Payment sponsor (or_native asset) amount,
        ChangeTrust (or_native asset) ''0'']"

definition reject_POST ::
  "sdk \<Rightarrow> gateway \<Rightarrow> string \<Rightarrow> string \<Rightarrow> string \<Rightarrow> response \<times> call list" where
  "reject_POST k gw secretKey network balanceId =
     (if secretKey = '''' \<or> network = '''' \<or> balanceId = '''' then
        (Json_error 400 ''Missing required fields'', [])
      else if \<not> startsWith secretKey ''S'' \<or> length secretKey \<noteq> 56 then
        (Json_error 400 ''Invalid secret key format'', [])
      else if network \<noteq> ''public'' \<and> network \<noteq> ''testnet'' then
        (Json_error 400 ''Invalid network'', [])
      else
        (case fromSecret k secretKey of
           Inl e \<Rightarrow> (Json_error 400 ''Invalid secret key format'', [])
         | Inr kp \<Rightarrow>
            (let server = SERVERS network; c1 = [LoadAccount server (publicKey kp)] in
             case loadAccount gw server (publicKey kp) of
               Inl e \<Rightarrow>
                 (Json_error 400 (''Account error: '' @ message_or e ''Failed to load account''),
                  c1)
             | Inr acc \<Rightarrow>
                (let c2 = c1 @ [ClaimableBalance server balanceId] in
                 case claimableBalance gw server balanceId of
                   Inl e \<Rightarrow>
                     (Json_error 400
                        (''Balance error: '' @ message_or e ''Failed to load balance''), c2)
                 | Inr balanceRecord \<Rightarrow>
                    (let sponsor = cb_sponsor balanceRecord; amount = cb_amount balanceRecord in
                     case parse_asset k (cb_asset balanceRecord) of
                       Inl e \<Rightarrow> (Json_error 500 (message_or e ''Failed to reject balance''), c2)
                     | Inr asset \<Rightarrow>
                         try_submit gw server
                           (extract_errorMsg k ''Failed to reject balance'')
                           ''Balance rejected'' c2
                           (build_and_sign k acc BASE_FEE (NETWORKS network)
                              (reject_operations asset balanceId sponsor amount) 180 kp))))))"

subsection \<open>Remove trustline: the handler of \<^verbatim>\<open>/api/trustlines/remove\<close> (\<^verbatim>\<open>unnamed/part_002\<close>)\<close>

text \<open>
  The balance the route sends back to the issuer: that of the first balance line with
  the asset's code and issuer, when that line has a balance that is neither empty nor
  the string \<^verbatim>\<open>"0"\<close>; the string \<^verbatim>\<open>"0"\<close> otherwise.
\<close>

definition trustlineBalance :: "account \<Rightarrow> string \<Rightarrow> string \<Rightarrow> string" where
  "trustlineBalance acc assetCode assetIssuer =
     (case find (\<lambda>b. asset_code b = assetCode \<and> asset_issuer b = assetIssuer) (balances acc) of
        Some trustline \<Rightarrow>
          (if balance trustline \<noteq> '''' \<and> balance trustline \<noteq> ''0'' then balance trustline
           else ''0'')
      | None \<Rightarrow> ''0'')"

definition remove_operations :: "account \<Rightarrow> string \<Rightarrow> string \<Rightarrow> asset \<Rightarrow> operation list" where
  "remove_operations acc assetCode assetIssuer asset =
     (if trustlineBalance acc assetCode assetIssuer \<noteq> ''0'' then
        [Payment assetIssuer asset (trustlineBalance acc assetCode assetIssuer)]
      else [])
     @ [ChangeTrust asset ''0'']"

definition remove_POST ::
  "sdk \<Rightarrow> gateway \<Rightarrow> string \<Rightarrow> string \<Rightarrow> string \<Rightarrow> string \<Rightarrow> response \<times> call list" where
  "remove_POST k gw secretKey network assetCode assetIssuer =
     (if secretKey = '''' \<or> network = '''' \<or> assetCode = '''' \<or> assetIssuer = '''' then
        (Json_error 400 ''Missing required fields'', [])
      else if \<not> startsWith secretKey ''S'' \<or> length secretKey \<noteq> 56 then
        (Json_error 400 ''Invalid secret key format'', [])
      else if network \<noteq> ''public'' \<and> network \<noteq> ''testnet'' then
        (Json_error 400 ''Invalid network'', [])
      else
        (case fromSecret k secretKey of
           Inl e \<Rightarrow> (Json_error 400 ''Invalid secret key format'', [])
         | Inr kp \<Rightarrow>
            (let server = SERVERS network; c1 = [LoadAccount server (publicKey kp)] in
             case loadAccount gw server (publicKey kp) of
               Inl e \<Rightarrow>
                 (Json_error 400 (''Account error: '' @ message_or e ''Failed to load account''),
                  c1)
             | Inr acc \<Rightarrow>
                (case new_Asset k assetCode assetIssuer of
                   Inl e \<Rightarrow> (Json_error 500 (message_or e ''Failed to remove trustline''), c1)
                 | Inr asset \<Rightarrow>
                     try_submit gw server
                       (\<lambda>e. message_or e ''Failed to remove trustline'')
                       ''Trustline removed'' c1
                       (build_and_sign k acc BASE_FEE (NETWORKS network)
                          (remove_operations acc assetCode assetIssuer asset) 180 kp)))))"

subsection \<open>Send payment: the handler of \<^verbatim>\<open>/api/trustlines/send\<close> (\<^verbatim>\<open>unnamed/part_003\<close>)\<close>

text \<open>
  The single \<^verbatim>\<open>catch\<close> of the send route, which classifies by the text of the message and
  by the HTTP status of the response.
\<close>

definition send_catch :: "thrown \<Rightarrow> response" where
  "send_catch e =
     (case e of
        NotAnError \<Rightarrow> Json_error 500 ''Failed to send asset''
      | Error m r \<Rightarrow>
          (if includes_str m ''Invalid'' then Json_error 400 m
           else if (case r of Some resp \<Rightarrow> resp_status resp = 400 | None \<Rightarrow> False) then
             Json_error 400
               (case r of
                  Some resp \<Rightarrow> (if resp_title resp \<noteq> '''' then resp_title resp else m)
                | None \<Rightarrow> m)
           else if includes_str m ''Not Found'' then
             Json_error 404 ''Recipient account not found''
           else Json_error 500 ''Failed to send asset''))"

definition send_POST ::
  "sdk \<Rightarrow> gateway \<Rightarrow> string \<Rightarrow> string \<Rightarrow> string \<Rightarrow> string \<Rightarrow> string \<Rightarrow> string
   \<Rightarrow> response \<times> call list" where
  "send_POST k gw secretKey network recipientAddress assetCode assetIssuer amount =
     (if secretKey = '''' \<or> recipientAddress = '''' \<or> assetCode = '''' \<or> amount = '''' then
        (Json_error 400 ''Missing required parameters'', [])
      else
        (case fromSecret k secretKey of
           Inl e \<Rightarrow> (send_catch e, [])
         | Inr kp \<Rightarrow>
            (let serverUrl =
                   (if network = ''testnet'' then ''https://horizon-testnet.stellar.org''
                    else ''https://horizon.stellar.org'');
                 c1 = [LoadAccount serverUrl (publicKey kp)] in
             case loadAccount gw serverUrl (publicKey kp) of
               Inl e \<Rightarrow> (send_catch e, c1)
             | Inr sourceAccount \<Rightarrow>
                (if assetCode \<noteq> ''XLM'' \<and> assetIssuer = '''' then
                   (Json_error 400 ''Asset issuer is required for non-native assets'', c1)
                 else
                   (case (if assetCode = ''XLM'' then Inr Native
                          else new_Asset k assetCode assetIssuer) of
                      Inl e \<Rightarrow> (send_catch e, c1)
                    | Inr asset \<Rightarrow>
                       (case build_and_sign k sourceAccount ''100''
                               (if network = ''testnet'' then Networks_TESTNET_NETWORK_PASSPHRASE
                                else Networks_PUBLIC_NETWORK_PASSPHRASE)
                               [Payment recipientAddress asset amount] 30 kp of
                          Inl e \<Rightarrow> (send_catch e, c1)
                        | Inr tx \<Rightarrow>
                           (case submitTransaction gw serverUrl tx of
                              Inl e \<Rightarrow> (send_catch e, c1 @ [SubmitTransaction serverUrl tx])
                            | Inr hash \<Rightarrow>
                                (Json_success
                                   (''Successfully sent '' @ amount @ '' '' @ assetCode
                                    @ '' to '' @ recipientAddress) hash,
                                 c1 @ [SubmitTransaction serverUrl tx]))))))))"

section \<open>The listing routes\<close>

subsection \<open>Claimable balances: the handler of \<^verbatim>\<open>/api/claimable/load\<close> (\<^verbatim>\<open>unnamed/part_000\<close>)\<close>

text \<open>
  The callback of \<^verbatim>\<open>records.map\<close>: \<open>None\<close> (the \<^verbatim>\<open>null\<close> filtered out afterwards) for a
  record the caller cannot claim, and otherwise the listed entry, with code \<^verbatim>\<open>"XLM"\<close>
  and issuer \<^verbatim>\<open>"native"\<close> unless the asset string splits into exactly two parts.
  A page of records is a list under one of its two names or is absent (then \<^verbatim>\<open>[]\<close>), so
  the test \<^verbatim>\<open>Array.isArray\<close> of the route always holds; an account's \<^verbatim>\<open>balances\<close> is a
  list as well.
\<close>

definition load_record :: "string \<Rightarrow> claimable_balance \<Rightarrow> listed_balance option" where
  "load_record pk r =
     (if \<not> (\<exists>c \<in> set (cb_claimants r). destination c = pk) then None
      else
        (let (assetCode, assetIssuer) =
               (if cb_asset r \<noteq> '''' \<and> cb_asset r \<noteq> ''native'' then
                  (case split CHR '':'' (cb_asset r) of
                     [code, issuer] \<Rightarrow> (code, issuer)
                   | _ \<Rightarrow> (''XLM'', ''native''))
                else (''XLM'', ''native''))
         in Some \<lparr>lb_id = cb_id r, lb_amount = cb_amount r, lb_asset = assetCode,
                   lb_assetIssuer = assetIssuer,
                   lb_sponsor = (if cb_sponsor r \<noteq> '''' then cb_sponsor r else ''Unknown'')\<rparr>))"

definition claimable_load_POST ::
  "sdk \<Rightarrow> gateway \<Rightarrow> string \<Rightarrow> string \<Rightarrow> response \<times> call list" where
  "claimable_load_POST k gw secretKey network =
     (if secretKey = '''' \<or> network = '''' then
        (Json_error 400 ''Missing required fields'', [])
      else if \<not> startsWith secretKey ''S'' \<or> length secretKey \<noteq> 56 then
        (Json_error 400 ''Invalid secret key format'', [])
      else if network \<noteq> ''public'' \<and> network \<noteq> ''testnet'' then
        (Json_error 400 ''Invalid network'', [])
      else
        (case fromSecret k secretKey of
           Inl e \<Rightarrow> (Json_error 400 ''Invalid secret key format'', [])
         | Inr kp \<Rightarrow>
            (let server = SERVERS network;
                 c1 = [ClaimableBalancesForClaimant server (publicKey kp) 200] in
             case claimableBalances_claimant gw server (publicKey kp) 200 of
               Inl e \<Rightarrow>
                 (Json_error 400
                    (''Fetch error: '' @ message_or e ''Failed to fetch claimable balances''), c1)
             | Inr page \<Rightarrow>
                (let records =
                       (case embedded_records page of
                          Some rs \<Rightarrow> rs
                        | None \<Rightarrow> (case page_records page of Some rs \<Rightarrow> rs | None \<Rightarrow> []))
                 in (Json_balances (List.map_filter (load_record (publicKey kp)) records),
                     c1)))))"

subsection \<open>Trustlines: the handler of \<^verbatim>\<open>/api/trustlines/load\<close> (\<^verbatim>\<open>unnamed/part_003\<close>)\<close>

definition trustlines_load_POST ::
  "sdk \<Rightarrow> gateway \<Rightarrow> string \<Rightarrow> string \<Rightarrow> response \<times> call list" where
  "trustlines_load_POST k gw secretKey network =
     (if secretKey = '''' \<or> network = '''' then
        (Json_error 400 ''Missing required fields'', [])
      else if \<not> startsWith secretKey ''S'' \<or> length secretKey \<noteq> 56 then
        (Json_error 400 ''Invalid secret key format'', [])
      else if network \<noteq> ''public'' \<and> network \<noteq> ''testnet'' then
        (Json_error 400 ''Invalid network'', [])
      else
        (case fromSecret k secretKey of
           Inl e \<Rightarrow> (Json_error 400 ''Invalid secret key format'', [])
         | Inr kp \<Rightarrow>
            (let server = SERVERS network; c1 = [LoadAccount server (publicKey kp)] in
             case loadAccount gw server (publicKey kp) of
               Inl e \<Rightarrow>
                 (Json_error 400 (''Account error: '' @ message_or e ''Failed to load account''),
                  c1)
             | Inr acc \<Rightarrow>
                 (Json_trustlines
                    (map (\<lambda>b. \<lparr>lt_assetCode = asset_code b, lt_assetIssuer = asset_issuer b,
                               lt_balance = balance b\<rparr>)
                       (filter (\<lambda>b. asset_type b \<noteq> ''native'') (balances acc))),
                  c1))))"

section \<open>The bulk handler: \<^verbatim>\<open>components/claimable-balances.tsx\<close>\<close>

text \<open>
  \<^verbatim>\<open>fetch\<close> is the browser's: a parameter that, from the state of the world and a request,
  gives the outcome and the next state of the world. The outcome is either a response
  (\<^verbatim>\<open>response.ok\<close> and the \<^verbatim>\<open>error\<close> field of its JSON body) or a thrown value
  (from \<^verbatim>\<open>fetch\<close> or from \<^verbatim>\<open>response.json()\<close>).
\<close>

datatype fetch_outcome = Responded bool string | Rejected thrown

record fetch_request =
  req_url :: string
  req_secretKey :: string
  req_network :: string
  req_balanceId :: string

text \<open>
  The variables of the loop, \<^verbatim>\<open>successCount\<close> and \<^verbatim>\<open>errors\<close>, with the requests sent so
  far and the state of the world.
\<close>

record 'w bulk_report =
  successCount :: nat
  errors :: "string list"
  requests :: "fetch_request list"
  world :: 'w

text \<open>The body of \<^verbatim>\<open>for (const balance of selectedBalances)\<close>.\<close>

definition bulk_step ::
  "('w \<Rightarrow> fetch_request \<Rightarrow> fetch_outcome \<times> 'w) \<Rightarrow> string \<Rightarrow> string \<Rightarrow> string
   \<Rightarrow> 'w bulk_report \<Rightarrow> listed_balance \<Rightarrow> 'w bulk_report" where
  "bulk_step fetch action secretKey network st b =
     (let req = \<lparr>req_url = ''/api/claimable/'' @ action, req_secretKey = secretKey,
                  req_network = network, req_balanceId = lb_id b\<rparr>;
          (outcome, w) = fetch (world st) req;
          st1 = st\<lparr>requests := requests st @ [req], world := w\<rparr>
      in case outcome of
           Responded ok err \<Rightarrow>
             (if ok then st1\<lparr>successCount := successCount st1 + 1\<rparr>
              else st1\<lparr>errors := errors st1 @
                     [lb_amount b @ '' '' @ lb_asset b @ '': ''
                      @ (if err \<noteq> '''' then err else ''Unknown error'')]\<rparr>)
         | Rejected e \<Rightarrow>
             st1\<lparr>errors := errors st1 @
                   [lb_amount b @ '' '' @ lb_asset b @ '': '' @ message_or e ''Network error'']\<rparr>)"

fun bulk_loop ::
  "('w \<Rightarrow> fetch_request \<Rightarrow> fetch_outcome \<times> 'w) \<Rightarrow> string \<Rightarrow> string \<Rightarrow> string
   \<Rightarrow> 'w bulk_report \<Rightarrow> listed_balance list \<Rightarrow> 'w bulk_report" where
  "bulk_loop fetch action secretKey network st [] = st"
| "bulk_loop fetch action secretKey network st (b # bs) =
     bulk_loop fetch action secretKey network (bulk_step fetch action secretKey network st b) bs"

text \<open>
  \<^verbatim>\<open>handleBulkProcess\<close>, up to the end of the loop: \<open>None\<close> is the immediate \<^verbatim>\<open>return\<close> on an
  empty selection, before any counter exists.
\<close>

definition handleBulkProcess ::
  "('w \<Rightarrow> fetch_request \<Rightarrow> fetch_outcome \<times> 'w) \<Rightarrow> string \<Rightarrow> string \<Rightarrow> string
   \<Rightarrow> listed_balance list \<Rightarrow> string set \<Rightarrow> 'w \<Rightarrow> 'w bulk_report option" where
  "handleBulkProcess fetch mode secretKey network balances_shown selected w =
     (if selected = {} then None
      else
        (let selectedBalances = filter (\<lambda>b. lb_id b \<in> selected) balances_shown;
             action = (if mode = ''claim'' then ''claim'' else ''reject'')
         in Some (bulk_loop fetch action secretKey network
                    \<lparr>successCount = 0, errors = [], requests = [], world = w\<rparr>
                    selectedBalances)))"

text \<open>
  The server side of \<^verbatim>\<open>fetch("/api/claimable/<action>")\<close>: the route of that name answers;
  \<^verbatim>\<open>response.ok\<close> is a status from 200 to 299. The world is the list of Horizon calls
  issued so far. The bulk handler requests only the two addresses \<^verbatim>\<open>/api/claimable/claim\<close>
  and \<^verbatim>\<open>/api/claimable/reject\<close>.
\<close>

fun as_outcome :: "response \<Rightarrow> fetch_outcome" where
  "as_outcome (Json_error status e) = Responded (200 \<le> status \<and> status \<le> 299) e"
| "as_outcome r = Responded True ''''"

definition api_fetch ::
  "sdk \<Rightarrow> gateway \<Rightarrow> call list \<Rightarrow> fetch_request \<Rightarrow> fetch_outcome \<times> call list" where
  "api_fetch k gw w req =
     (let (resp, calls) =
            (if req_url req = ''/api/claimable/claim'' then
               claim_POST k gw (req_secretKey req) (req_network req) (req_balanceId req)
             else reject_POST k gw (req_secretKey req) (req_network req) (req_balanceId req))
      in (as_outcome resp, w @ calls))"

section \<open>Notions the properties are stated with\<close>

text \<open>The transactions handed to \<^verbatim>\<open>server.submitTransaction\<close> in a list of calls.\<close>

fun submitted :: "call list \<Rightarrow> transaction list" where
  "submitted [] = []"
| "submitted (SubmitTransaction url tx # cs) = tx # submitted cs"
| "submitted (c # cs) = submitted cs"

text \<open>
  An amount is written as a decimal string; it is nonzero when one of its digits is.
\<close>

definition nonzero_amount :: "string \<Rightarrow> bool" where
  "nonzero_amount s = (\<exists>c \<in> set s. c \<in> set ''123456789'')"

text \<open>
  The ledger holds an amount as a count of units of \<open>10\<^sup>-\<^sup>7\<close> in a signed 64-bit integer:
  for a string with seven digits after the point, the count is the number its digits
  spell.
\<close>

definition stroops :: "string \<Rightarrow> nat" where
  "stroops s = foldl (\<lambda>n c. 10 * n + (of_char c - 48)) 0 (filter (\<lambda>c. c \<noteq> CHR ''.'') s)"

text \<open>
  The outcomes the world gives to a sequence of requests sent one after the other, and
  the state it is left in.
\<close>

fun run_fetch ::
  "('w \<Rightarrow> fetch_request \<Rightarrow> fetch_outcome \<times> 'w) \<Rightarrow> 'w \<Rightarrow> fetch_request list
   \<Rightarrow> fetch_outcome list \<times> 'w" where
  "run_fetch fetch w [] = ([], w)"
| "run_fetch fetch w (r # rs) =
     (let (out, w1) = fetch w r; (outs, w2) = run_fetch fetch w1 rs in (out # outs, w2))"

fun succeeded :: "fetch_outcome \<Rightarrow> bool" where
  "succeeded (Responded ok err) = ok"
| "succeeded (Rejected e) = False"

text \<open>The entry of the failure list for a target and its failed outcome.\<close>

fun failure_message :: "listed_balance \<Rightarrow> fetch_outcome \<Rightarrow> string" where
  "failure_message b (Responded ok err) =
     lb_amount b @ '' '' @ lb_asset b @ '': '' @ (if err \<noteq> '''' then err else ''Unknown error'')"
| "failure_message b (Rejected e) =
     lb_amount b @ '' '' @ lb_asset b @ '': '' @ message_or e ''Network error''"

definition request_for :: "string \<Rightarrow> string \<Rightarrow> string \<Rightarrow> listed_balance \<Rightarrow> fetch_request" where
  "request_for action secretKey network b =
     \<lparr>req_url = ''/api/claimable/'' @ action, req_secretKey = secretKey,
      req_network = network, req_balanceId = lb_id b\<rparr>"

section \<open>Concrete collaborators for the examples\<close>

text \<open>
  An SDK that accepts every asset and operation, with the given key derivation, and
  that serialises result codes as JSON (for codes without characters to escape).
\<close>

definition quoted :: "string \<Rightarrow> string" where
  \<open>quoted s = ''"'' @ s @ ''"''\<close>

fun commas :: "string list \<Rightarrow> string" where
  "commas [] = ''''"
| "commas [s] = s"
| "commas (s # t # ss) = s @ '','' @ commas (t # ss)"

definition stringify_codes :: "result_codes \<Rightarrow> string" where
  \<open>stringify_codes rc =
     ''{"transaction":'' @ quoted (rc_transaction rc) @ '',"operations":[''
     @ commas (map quoted (rc_operations rc)) @ '']}''\<close>

definition sdk_with :: "(string \<Rightarrow> thrown + keypair) \<Rightarrow> sdk" where
  "sdk_with derive =
     \<lparr>fromSecret = derive, asset_error = (\<lambda>code issuer. None),
      operation_error = (\<lambda>op. None), JSON_stringify = stringify_codes\<rparr>"

definition derive_any :: "string \<Rightarrow> thrown + keypair" where
  "derive_any s = Inr \<lparr>publicKey = ''GHOLDER'', secret = s\<rparr>"

definition derive_none :: "string \<Rightarrow> thrown + keypair" where
  "derive_none s = Inl (Error ''invalid checksum'' None)"

text \<open>
  A Horizon whose account holds the given balance lines, that knows the given
  claimable balances by id, and that answers a submission as \<open>submit\<close> says.
\<close>

definition gateway_with ::
  "balance_line list \<Rightarrow> claimable_balance list \<Rightarrow> (transaction \<Rightarrow> thrown + string) \<Rightarrow> gateway" where
  "gateway_with lines cbs submit =
     \<lparr>loadAccount = (\<lambda>url pk. Inr \<lparr>account_id = pk, sequence = ''1'', balances = lines\<rparr>),
      claimableBalance =
        (\<lambda>url i. case find (\<lambda>r. cb_id r = i) cbs of
                    Some r \<Rightarrow> Inr r
                  | None \<Rightarrow> Inl (Error ''Not Found'' None)),
      claimableBalances_claimant =
        (\<lambda>url pk n. Inr \<lparr>embedded_records = None, page_records = Some cbs\<rparr>),
      submitTransaction = (\<lambda>url. submit)\<rparr>"

definition accept :: "transaction \<Rightarrow> thrown + string" where
  "accept tx = Inr ''HASH''"

text \<open>A ledger rejection as Horizon reports it, and ledgers that refuse.\<close>

definition codes_no_trust :: result_codes where
  "codes_no_trust = \<lparr>rc_transaction = ''tx_failed'', rc_operations = [''op_no_trust'']\<rparr>"

definition ledger_rejection :: thrown where
  "ledger_rejection =
     Error ''Request failed with status code 400''
       (Some \<lparr>resp_status = 400, resp_title = ''Transaction Failed'',
              resp_result_codes = Some codes_no_trust\<rparr>)"

definition refuse :: "transaction \<Rightarrow> thrown + string" where
  "refuse tx = Inl ledger_rejection"

definition refuse_claim_of :: "string \<Rightarrow> transaction \<Rightarrow> thrown + string" where
  "refuse_claim_of i tx =
     (if ClaimClaimableBalance i \<in> set (tx_operations tx) then Inl ledger_rejection
      else Inr ''HASH'')"

definition secret_SA55 :: string where
  "secret_SA55 = CHR ''S'' # replicate 55 CHR ''A''"

definition cb_record :: "string \<Rightarrow> string \<Rightarrow> string \<Rightarrow> claimable_balance" where
  "cb_record i a amount =
     \<lparr>cb_id = i, cb_asset = a, cb_amount = amount, cb_sponsor = ''GSPONSOR'',
      cb_claimants = [\<lparr>destination = ''GHOLDER''\<rparr>]\<rparr>"

definition trust_line :: "string \<Rightarrow> string \<Rightarrow> string \<Rightarrow> balance_line" where
  "trust_line code issuer amount =
     \<lparr>asset_type = ''credit_alphanum4'', asset_code = code, asset_issuer = issuer,
      balance = amount\<rparr>"

text \<open>
  The transaction the routes build on the test network for the holder of \<open>secret_SA55\<close>
  whose account has the balance lines \<open>lines\<close>.
\<close>

definition horizon_testnet :: string where
  "horizon_testnet = ''https://horizon-testnet.stellar.org''"

definition holder_tx ::
  "balance_line list \<Rightarrow> passphrase \<Rightarrow> operation list \<Rightarrow> nat \<Rightarrow> transaction" where
  "holder_tx lines pass ops t =
     \<lparr>tx_source = \<lparr>account_id = ''GHOLDER'', sequence = ''1'', balances = lines\<rparr>,
      tx_fee = ''100'', tx_networkPassphrase = pass, tx_operations = ops, tx_timeout = t,
      tx_signatures = [\<lparr>publicKey = ''GHOLDER'', secret = secret_SA55\<rparr>]\<rparr>"

text \<open>
  Three claimable balances of the holder, and the entries the listing shows for them.
\<close>

definition three_records :: "claimable_balance list" where
  "three_records =
     [cb_record ''b1'' ''USD:GISSUER'' ''1.0000000'',
      cb_record ''b2'' ''EUR:GISSUER'' ''2.0000000'',
      cb_record ''b3'' ''USD:GISSUER'' ''3.0000000'']"

definition three_shown :: "listed_balance list" where
  "three_shown = List.map_filter (load_record ''GHOLDER'') three_records"

section \<open>What a route submits\<close>

lemmas example_defs =
  sdk_with_def derive_any_def derive_none_def gateway_with_def accept_def refuse_def
  refuse_claim_of_def ledger_rejection_def codes_no_trust_def cb_record_def trust_line_def
  SERVERS_def NETWORKS_def BASE_FEE_def MAX_LIMIT_def startsWith_def secret_SA55_def
  horizon_testnet_def holder_tx_def Let_def

lemmas route_defs =
  parse_asset_def new_Asset_def try_submit_def build_and_sign_def extract_errorMsg_def
  claim_operations_def reject_operations_def remove_operations_def trustlineBalance_def

text \<open>The builder adds the operations it is given, in their order, or throws.\<close>

lemma addOperations_Inr: "addOperations k ops = Inr r \<Longrightarrow> r = ops"
  by (induction ops arbitrary: r) (auto split: option.splits sum.splits)

lemma addOperations_permissive:
  "\<forall>op. operation_error k op = None \<Longrightarrow> addOperations k ops = Inr ops"
  by (induction ops) simp_all

lemma build_and_sign_Inr:
  "build_and_sign k acc fee pass ops t kp = Inr tx \<Longrightarrow>
     tx_operations tx = ops \<and> tx_timeout tx = t"
  by (auto simp: build_and_sign_def split: sum.splits dest: addOperations_Inr)

lemma try_submit_calls:
  "SubmitTransaction url tx \<in> set (snd (try_submit gw server f d calls built)) \<Longrightarrow>
     SubmitTransaction url tx \<in> set calls \<or> (built = Inr tx \<and> url = server)"
  by (auto simp: try_submit_def split: sum.splits)

text \<open>
  A transaction reaches \<^verbatim>\<open>submitTransaction\<close> only on the path where the key was derived,
  the account (and the balance record) loaded and the transaction built.
\<close>

lemma claim_POST_submitted:
  assumes "SubmitTransaction url tx \<in> set (snd (claim_POST k gw secretKey network balanceId))"
  shows "\<exists>kp acc r asset.
           fromSecret k secretKey = Inr kp \<and>
           loadAccount gw (SERVERS network) (publicKey kp) = Inr acc \<and>
           claimableBalance gw (SERVERS network) balanceId = Inr r \<and>
           parse_asset k (cb_asset r) = Inr asset \<and>
           build_and_sign k acc BASE_FEE (NETWORKS network)
             (claim_operations asset balanceId) 180 kp = Inr tx"
  using assms
  by (auto simp: claim_POST_def Let_def split: if_splits sum.splits dest!: try_submit_calls)

lemma reject_POST_submitted:
  assumes "SubmitTransaction url tx \<in> set (snd (reject_POST k gw secretKey network balanceId))"
  shows "\<exists>kp acc r asset.
           fromSecret k secretKey = Inr kp \<and>
           loadAccount gw (SERVERS network) (publicKey kp) = Inr acc \<and>
           claimableBalance gw (SERVERS network) balanceId = Inr r \<and>
           parse_asset k (cb_asset r) = Inr asset \<and>
           build_and_sign k acc BASE_FEE (NETWORKS network)
             (reject_operations asset balanceId (cb_sponsor r) (cb_amount r)) 180 kp = Inr tx"
  using assms
  by (auto simp: reject_POST_def Let_def split: if_splits sum.splits dest!: try_submit_calls)

lemma remove_POST_submitted:
  assumes "SubmitTransaction url tx
             \<in> set (snd (remove_POST k gw secretKey network assetCode assetIssuer))"
  shows "\<exists>kp acc.
           fromSecret k secretKey = Inr kp \<and>
           loadAccount gw (SERVERS network) (publicKey kp) = Inr acc \<and>
           build_and_sign k acc BASE_FEE (NETWORKS network)
             (remove_operations acc assetCode assetIssuer (Asset assetCode assetIssuer)) 180 kp
           = Inr tx"
  using assms
  by (auto simp: remove_POST_def new_Asset_def Let_def
      split: if_splits sum.splits option.splits dest!: try_submit_calls)


lemma remove_submitted_operations:
  assumes "SubmitTransaction url tx
             \<in> set (snd (remove_POST k gw secretKey network assetCode assetIssuer))"
    and "fromSecret k secretKey = Inr kp"
    and "loadAccount gw (SERVERS network) (publicKey kp) = Inr acc"
  shows "tx_operations tx =
           remove_operations acc assetCode assetIssuer (Asset assetCode assetIssuer)"
  using remove_POST_submitted [OF assms(1)] assms(2,3)
  by (auto dest: build_and_sign_Inr)









text \<open>Parsing the asset of a balance record.\<close>

lemma split_two_parts:
  "split CHR '':'' a = [code, issuer] \<Longrightarrow> a \<noteq> '''' \<and> a \<noteq> ''native''"
  by auto

lemma parse_asset_two_parts:
  "split CHR '':'' a = [code, issuer] \<Longrightarrow> parse_asset k a = Inr x
     \<Longrightarrow> x = Some (Asset code issuer)"
  using split_two_parts [of a code issuer]
  by (simp add: parse_asset_def new_Asset_def split: option.splits)

lemma parse_asset_native: "parse_asset k ''native'' = Inr None"
  by (simp add: parse_asset_def)

lemma stroops_MAX_LIMIT: "stroops MAX_LIMIT = 2 ^ 63 - 1"
  by (simp add: stroops_def MAX_LIMIT_def)

section \<open>The routes on concrete requests\<close>

text \<open>
  The holder of \<open>secret_SA55\<close>, for an SDK that derives a key from it, on the test
  network: what each route sends to Horizon.
\<close>

lemma example_key:
  "fromSecret (sdk_with derive_any) secret_SA55
     = Inr \<lparr>publicKey = ''GHOLDER'', secret = secret_SA55\<rparr>"
  by (simp add: sdk_with_def derive_any_def)

lemma example_account:
  "loadAccount (gateway_with lines cbs submit) (SERVERS ''testnet'')
     (publicKey \<lparr>publicKey = ''GHOLDER'', secret = secret_SA55\<rparr>)
   = Inr \<lparr>account_id = ''GHOLDER'', sequence = ''1'', balances = lines\<rparr>"
  by (simp add: gateway_with_def)

lemma claim_native_example:
  "snd (claim_POST (sdk_with derive_any)
          (gateway_with [] [cb_record ''b1'' ''native'' ''5.0000000''] accept)
          secret_SA55 ''testnet'' ''b1'')
   = [LoadAccount horizon_testnet ''GHOLDER'', ClaimableBalance horizon_testnet ''b1'',
      SubmitTransaction horizon_testnet
        (holder_tx [] Networks_TESTNET [ClaimClaimableBalance ''b1''] 180)]"
  by (simp add: claim_POST_def example_defs route_defs)

lemma claim_issued_example:
  "snd (claim_POST (sdk_with derive_any)
          (gateway_with [] [cb_record ''b2'' ''USD:GISSUER'' ''2.0000000''] accept)
          secret_SA55 ''testnet'' ''b2'')
   = [LoadAccount horizon_testnet ''GHOLDER'', ClaimableBalance horizon_testnet ''b2'',
      SubmitTransaction horizon_testnet
        (holder_tx [] Networks_TESTNET
           [ChangeTrust (Asset ''USD'' ''GISSUER'') ''922337203685.4775807'',
            ClaimClaimableBalance ''b2''] 180)]"
  by (simp add: claim_POST_def example_defs route_defs)

lemma remove_example:
  "snd (remove_POST (sdk_with derive_any) (gateway_with lines [] accept)
          secret_SA55 ''testnet'' ''USD'' ''GISSUER'')
   = [LoadAccount horizon_testnet ''GHOLDER'',
      SubmitTransaction horizon_testnet
        (holder_tx lines Networks_TESTNET
           (remove_operations \<lparr>account_id = ''GHOLDER'', sequence = ''1'', balances = lines\<rparr>
              ''USD'' ''GISSUER'' (Asset ''USD'' ''GISSUER'')) 180)]"
  by (simp add: remove_POST_def new_Asset_def try_submit_def build_and_sign_def
      addOperations_permissive example_defs)


section \<open>Claim balance: the operation plan\<close>

text \<open>
  C5. Whatever transaction the claim route submits, when the balance record Horizon
  returned carries the native asset the transaction holds exactly one operation, the
  claim of the requested balance id, and no trustline operation; when the record's
  asset is \<^verbatim>\<open>CODE:ISSUER\<close>, the first operation establishes the trustline for that asset
  with the limit \<^verbatim>\<open>922337203685.4775807\<close>, which is the largest amount a signed 64-bit
  count of \<open>10\<^sup>-\<^sup>7\<close> units can hold, and the last operation is the claim.
\<close>

theorem claim_plan:
  assumes "SubmitTransaction url tx \<in> set (snd (claim_POST k gw secretKey network balanceId))"
    and "claimableBalance gw (SERVERS network) balanceId = Inr r"
  shows "(cb_asset r = ''native'' \<longrightarrow> tx_operations tx = [ClaimClaimableBalance balanceId])
       \<and> (\<forall>code issuer. split CHR '':'' (cb_asset r) = [code, issuer] \<longrightarrow>
             tx_operations tx =
               [ChangeTrust (Asset code issuer) MAX_LIMIT, ClaimClaimableBalance balanceId])
       \<and> MAX_LIMIT = ''922337203685.4775807'' \<and> stroops MAX_LIMIT = 2 ^ 63 - 1"
proof -
  from claim_POST_submitted [OF assms(1)] assms(2)
  obtain kp acc asset where p: "parse_asset k (cb_asset r) = Inr asset"
    and b: "build_and_sign k acc BASE_FEE (NETWORKS network)
              (claim_operations asset balanceId) 180 kp = Inr tx"
    by auto
  from build_and_sign_Inr [OF b]
  have ops: "tx_operations tx = claim_operations asset balanceId" by simp
  have 1: "cb_asset r = ''native'' \<longrightarrow> tx_operations tx = [ClaimClaimableBalance balanceId]"
    using p ops by (auto simp: parse_asset_native claim_operations_def)
  have 2: "\<forall>code issuer. split CHR '':'' (cb_asset r) = [code, issuer] \<longrightarrow>
             tx_operations tx =
               [ChangeTrust (Asset code issuer) MAX_LIMIT, ClaimClaimableBalance balanceId]"
    using p ops parse_asset_two_parts [of "cb_asset r" _ _ k asset]
    by (auto simp: claim_operations_def)
  show ?thesis using 1 2 stroops_MAX_LIMIT by (simp add: MAX_LIMIT_def)
qed

text \<open>
  The two cases on the test network: a native balance \<^verbatim>\<open>b1\<close> and a balance \<^verbatim>\<open>b2\<close> of
  \<^verbatim>\<open>USD:GISSUER\<close>. In each the route does submit, and the theorem gives the plan.
\<close>

theorem claim_plan_witness:
  "SubmitTransaction horizon_testnet
       (holder_tx [] Networks_TESTNET [ClaimClaimableBalance ''b1''] 180)
     \<in> set (snd (claim_POST (sdk_with derive_any)
           (gateway_with [] [cb_record ''b1'' ''native'' ''5.0000000''] accept)
           secret_SA55 ''testnet'' ''b1''))
   \<and> tx_operations (holder_tx [] Networks_TESTNET [ClaimClaimableBalance ''b1''] 180)
       = [ClaimClaimableBalance ''b1'']
   \<and> SubmitTransaction horizon_testnet
       (holder_tx [] Networks_TESTNET
          [ChangeTrust (Asset ''USD'' ''GISSUER'') ''922337203685.4775807'',
           ClaimClaimableBalance ''b2''] 180)
     \<in> set (snd (claim_POST (sdk_with derive_any)
           (gateway_with [] [cb_record ''b2'' ''USD:GISSUER'' ''2.0000000''] accept)
           secret_SA55 ''testnet'' ''b2''))
   \<and> tx_operations
       (holder_tx [] Networks_TESTNET
          [ChangeTrust (Asset ''USD'' ''GISSUER'') ''922337203685.4775807'',
           ClaimClaimableBalance ''b2''] 180)
     = [ChangeTrust (Asset ''USD'' ''GISSUER'') ''922337203685.4775807'',
        ClaimClaimableBalance ''b2'']"
proof -
  have r1: "claimableBalance (gateway_with [] [cb_record ''b1'' ''native'' ''5.0000000''] accept)
              (SERVERS ''testnet'') ''b1'' = Inr (cb_record ''b1'' ''native'' ''5.0000000'')"
    by (simp add: gateway_with_def cb_record_def)
  have r2: "claimableBalance
              (gateway_with [] [cb_record ''b2'' ''USD:GISSUER'' ''2.0000000''] accept)
              (SERVERS ''testnet'') ''b2'' = Inr (cb_record ''b2'' ''USD:GISSUER'' ''2.0000000'')"
    by (simp add: gateway_with_def cb_record_def)
  have m1: "SubmitTransaction horizon_testnet
              (holder_tx [] Networks_TESTNET [ClaimClaimableBalance ''b1''] 180)
            \<in> set (snd (claim_POST (sdk_with derive_any)
                  (gateway_with [] [cb_record ''b1'' ''native'' ''5.0000000''] accept)
                  secret_SA55 ''testnet'' ''b1''))"
    by (simp add: claim_native_example)
  have m2: "SubmitTransaction horizon_testnet
              (holder_tx [] Networks_TESTNET
                 [ChangeTrust (Asset ''USD'' ''GISSUER'') ''922337203685.4775807'',
                  ClaimClaimableBalance ''b2''] 180)
            \<in> set (snd (claim_POST (sdk_with derive_any)
                  (gateway_with [] [cb_record ''b2'' ''USD:GISSUER'' ''2.0000000''] accept)
                  secret_SA55 ''testnet'' ''b2''))"
    by (simp add: claim_issued_example)
  note c1 = claim_plan [OF m1 r1, THEN conjunct1]
  note c2 = claim_plan [OF m2 r2, THEN conjunct2, THEN conjunct1]
  have s2: "split CHR '':'' (cb_asset (cb_record ''b2'' ''USD:GISSUER'' ''2.0000000''))
              = [''USD'', ''GISSUER'']"
    by (simp add: cb_record_def)
  from c1 have t1:
    "tx_operations (holder_tx [] Networks_TESTNET [ClaimClaimableBalance ''b1''] 180)
       = [ClaimClaimableBalance ''b1'']"
    by (simp add: cb_record_def)
  from c2 [rule_format, OF s2] have t2: "tx_operations
       (holder_tx [] Networks_TESTNET
          [ChangeTrust (Asset ''USD'' ''GISSUER'') ''922337203685.4775807'',
           ClaimClaimableBalance ''b2''] 180)
     = [ChangeTrust (Asset ''USD'' ''GISSUER'') ''922337203685.4775807'',
        ClaimClaimableBalance ''b2'']"
    by (simp add: MAX_LIMIT_def)
  from m1 t1 m2 t2 show ?thesis by (intro conjI)
qed

section \<open>Reject balance: the operation plan\<close>

text \<open>
  What the reject route submits: for a record of \<^verbatim>\<open>CODE:ISSUER\<close> the four steps
  trust-establish, claim, payment to the sponsor, trust-remove; for a native record the
  claim, the payment and, since the last \<^verbatim>\<open>addOperation\<close> is unconditional, a
  zero-limit trust change on the native asset as well.
\<close>

lemma reject_submitted_operations:
  assumes "SubmitTransaction url tx \<in> set (snd (reject_POST k gw secretKey network balanceId))"
    and "claimableBalance gw (SERVERS network) balanceId = Inr r"
  shows "(cb_asset r = ''native'' \<longrightarrow>
            tx_operations tx =
              [ClaimClaimableBalance balanceId, Payment (cb_sponsor r) Native (cb_amount r),
               ChangeTrust Native ''0''])
       \<and> (\<forall>code issuer. split CHR '':'' (cb_asset r) = [code, issuer] \<longrightarrow>
             tx_operations tx =
               [ChangeTrust (Asset code issuer) MAX_LIMIT, ClaimClaimableBalance balanceId,
                Payment (cb_sponsor r) (Asset code issuer) (cb_amount r),
                ChangeTrust (Asset code issuer) ''0''])"
proof -
  from reject_POST_submitted [OF assms(1)] assms(2)
  obtain kp acc asset where p: "parse_asset k (cb_asset r) = Inr asset"
    and b: "build_and_sign k acc BASE_FEE (NETWORKS network)
              (reject_operations asset balanceId (cb_sponsor r) (cb_amount r)) 180 kp = Inr tx"
    by auto
  from build_and_sign_Inr [OF b]
  have ops: "tx_operations tx = reject_operations asset balanceId (cb_sponsor r) (cb_amount r)"
    by simp
  have 1: "cb_asset r = ''native'' \<longrightarrow>
            tx_operations tx =
              [ClaimClaimableBalance balanceId, Payment (cb_sponsor r) Native (cb_amount r),
               ChangeTrust Native ''0'']"
    using p ops by (auto simp: parse_asset_native reject_operations_def)
  have 2: "\<forall>code issuer. split CHR '':'' (cb_asset r) = [code, issuer] \<longrightarrow>
             tx_operations tx =
               [ChangeTrust (Asset code issuer) MAX_LIMIT, ClaimClaimableBalance balanceId,
                Payment (cb_sponsor r) (Asset code issuer) (cb_amount r),
                ChangeTrust (Asset code issuer) ''0'']"
    using p ops parse_asset_two_parts [of "cb_asset r" _ _ k asset]
    by (auto simp: reject_operations_def)
  show ?thesis using 1 2 by (rule conjI)
qed

text \<open>
  C1. A Reject-Balance request for the balance \<^verbatim>\<open>b1\<close>, whose record carries the native
  asset, the amount \<^verbatim>\<open>5.0000000\<close> and the sponsor \<^verbatim>\<open>GSPONSOR\<close>: the route submits a
  transaction of three operations, claim, payment to the sponsor and a zero-limit
  trust change on the native asset. The claim states two steps for a native asset.
\<close>

theorem reject_native_three_steps:
  "snd (reject_POST (sdk_with derive_any)
          (gateway_with [] [cb_record ''b1'' ''native'' ''5.0000000''] accept)
          secret_SA55 ''testnet'' ''b1'')
   = [LoadAccount horizon_testnet ''GHOLDER'', ClaimableBalance horizon_testnet ''b1'',
      SubmitTransaction horizon_testnet
        (holder_tx [] Networks_TESTNET
           [ClaimClaimableBalance ''b1'', Payment ''GSPONSOR'' Native ''5.0000000'',
            ChangeTrust Native ''0''] 180)]"
  by (simp add: reject_POST_def example_defs route_defs)

theorem reject_native_three_steps_witness:
  "map (\<lambda>tx. length (tx_operations tx))
     (submitted (snd (reject_POST (sdk_with derive_any)
        (gateway_with [] [cb_record ''b1'' ''native'' ''5.0000000''] accept)
        secret_SA55 ''testnet'' ''b1''))) = [3]"
  using reject_native_three_steps by (simp add: holder_tx_def)

section \<open>Remove trustline: the operation plan\<close>

lemma nonzero_amount_neq: "nonzero_amount s \<Longrightarrow> s \<noteq> ''0'' \<and> s \<noteq> ''''"
  by (auto simp: nonzero_amount_def)

lemma remove_operations_payment:
  assumes "find (\<lambda>b. asset_code b = assetCode \<and> asset_issuer b = assetIssuer) (balances acc)
             = Some t"
    and "balance t \<noteq> ''0''" and "balance t \<noteq> ''''"
  shows "remove_operations acc assetCode assetIssuer asset =
           [Payment assetIssuer asset (balance t), ChangeTrust asset ''0'']"
  using assms by (simp add: remove_operations_def trustlineBalance_def)

lemma remove_operations_no_line:
  assumes "find (\<lambda>b. asset_code b = assetCode \<and> asset_issuer b = assetIssuer) (balances acc)
             = None"
  shows "remove_operations acc assetCode assetIssuer asset = [ChangeTrust asset ''0'']"
  using assms by (simp add: remove_operations_def trustlineBalance_def)

text \<open>
  C2. Whatever transaction the remove route submits for the asset \<open>(assetCode,
  assetIssuer)\<close> on the account Horizon returned: when the balance line of that asset
  (the one \<^verbatim>\<open>find\<close> locates) has a nonzero amount, the operations are the payment of
  exactly that amount of the asset to the issuer and then the zero-limit trust change,
  two separate operations in that order; when no balance line has that code and
  issuer, the zero-limit trust change is the only operation.
\<close>

theorem remove_plan:
  assumes "SubmitTransaction url tx
             \<in> set (snd (remove_POST k gw secretKey network assetCode assetIssuer))"
    and "fromSecret k secretKey = Inr kp"
    and "loadAccount gw (SERVERS network) (publicKey kp) = Inr acc"
  shows "(\<forall>t. find (\<lambda>b. asset_code b = assetCode \<and> asset_issuer b = assetIssuer) (balances acc)
               = Some t \<and> nonzero_amount (balance t) \<longrightarrow>
             tx_operations tx =
               [Payment assetIssuer (Asset assetCode assetIssuer) (balance t),
                ChangeTrust (Asset assetCode assetIssuer) ''0''])
       \<and> ((\<forall>b \<in> set (balances acc). \<not> (asset_code b = assetCode \<and> asset_issuer b = assetIssuer))
            \<longrightarrow> tx_operations tx = [ChangeTrust (Asset assetCode assetIssuer) ''0''])"
proof (intro conjI allI impI)
  fix t
  assume "find (\<lambda>b. asset_code b = assetCode \<and> asset_issuer b = assetIssuer) (balances acc)
            = Some t \<and> nonzero_amount (balance t)"
  then show "tx_operations tx =
               [Payment assetIssuer (Asset assetCode assetIssuer) (balance t),
                ChangeTrust (Asset assetCode assetIssuer) ''0'']"
    using remove_submitted_operations [OF assms] nonzero_amount_neq [of "balance t"]
    by (simp add: remove_operations_payment)
next
  assume "\<forall>b \<in> set (balances acc). \<not> (asset_code b = assetCode \<and> asset_issuer b = assetIssuer)"
  then have "find (\<lambda>b. asset_code b = assetCode \<and> asset_issuer b = assetIssuer) (balances acc)
               = None"
    by (simp add: find_None_iff)
  then show "tx_operations tx = [ChangeTrust (Asset assetCode assetIssuer) ''0'']"
    using remove_submitted_operations [OF assms]
    by (simp add: remove_operations_no_line)
qed

text \<open>
  An account holding \<^verbatim>\<open>12.5000000\<close> of \<^verbatim>\<open>USD:GISSUER\<close>, and an account holding only
  another asset: in both the route submits, with the plan the theorem gives.
\<close>

theorem remove_plan_witness:
  "SubmitTransaction horizon_testnet
     (holder_tx [trust_line ''USD'' ''GISSUER'' ''12.5000000''] Networks_TESTNET
        (remove_operations
           \<lparr>account_id = ''GHOLDER'', sequence = ''1'',
            balances = [trust_line ''USD'' ''GISSUER'' ''12.5000000'']\<rparr>
           ''USD'' ''GISSUER'' (Asset ''USD'' ''GISSUER'')) 180)
     \<in> set (snd (remove_POST (sdk_with derive_any)
                 (gateway_with [trust_line ''USD'' ''GISSUER'' ''12.5000000''] [] accept)
                 secret_SA55 ''testnet'' ''USD'' ''GISSUER''))
   \<and> tx_operations
     (holder_tx [trust_line ''USD'' ''GISSUER'' ''12.5000000''] Networks_TESTNET
        (remove_operations
           \<lparr>account_id = ''GHOLDER'', sequence = ''1'',
            balances = [trust_line ''USD'' ''GISSUER'' ''12.5000000'']\<rparr>
           ''USD'' ''GISSUER'' (Asset ''USD'' ''GISSUER'')) 180)
   = [Payment ''GISSUER'' (Asset ''USD'' ''GISSUER'') ''12.5000000'',
      ChangeTrust (Asset ''USD'' ''GISSUER'') ''0'']
   \<and> tx_operations
     (holder_tx [trust_line ''EUR'' ''GOTHER'' ''3.0000000''] Networks_TESTNET
        (remove_operations
           \<lparr>account_id = ''GHOLDER'', sequence = ''1'',
            balances = [trust_line ''EUR'' ''GOTHER'' ''3.0000000'']\<rparr>
           ''USD'' ''GISSUER'' (Asset ''USD'' ''GISSUER'')) 180)
   = [ChangeTrust (Asset ''USD'' ''GISSUER'') ''0'']"
proof -
  let ?held = "[trust_line ''USD'' ''GISSUER'' ''12.5000000'']"
  let ?other = "[trust_line ''EUR'' ''GOTHER'' ''3.0000000'']"
  have m1: "SubmitTransaction horizon_testnet
              (holder_tx ?held Networks_TESTNET
                 (remove_operations
                    \<lparr>account_id = ''GHOLDER'', sequence = ''1'', balances = ?held\<rparr>
                    ''USD'' ''GISSUER'' (Asset ''USD'' ''GISSUER'')) 180)
            \<in> set (snd (remove_POST (sdk_with derive_any) (gateway_with ?held [] accept)
                        secret_SA55 ''testnet'' ''USD'' ''GISSUER''))"
    by (simp add: remove_example)
  have m2: "SubmitTransaction horizon_testnet
              (holder_tx ?other Networks_TESTNET
                 (remove_operations
                    \<lparr>account_id = ''GHOLDER'', sequence = ''1'', balances = ?other\<rparr>
                    ''USD'' ''GISSUER'' (Asset ''USD'' ''GISSUER'')) 180)
            \<in> set (snd (remove_POST (sdk_with derive_any) (gateway_with ?other [] accept)
                        secret_SA55 ''testnet'' ''USD'' ''GISSUER''))"
    by (simp add: remove_example)
  have f1: "find (\<lambda>b. asset_code b = ''USD'' \<and> asset_issuer b = ''GISSUER'')
              (balances \<lparr>account_id = ''GHOLDER'', sequence = ''1'', balances = ?held\<rparr>)
            = Some (trust_line ''USD'' ''GISSUER'' ''12.5000000'')
            \<and> nonzero_amount (balance (trust_line ''USD'' ''GISSUER'' ''12.5000000''))"
    by (simp add: trust_line_def nonzero_amount_def)
  have f2: "\<forall>b \<in> set (balances \<lparr>account_id = ''GHOLDER'', sequence = ''1'', balances = ?other\<rparr>).
              \<not> (asset_code b = ''USD'' \<and> asset_issuer b = ''GISSUER'')"
    by (simp add: trust_line_def)
  note p1 = remove_plan [OF m1 example_key example_account, THEN conjunct1,
      THEN spec, THEN mp, OF f1]
  note p2 = remove_plan [OF m2 example_key example_account, THEN conjunct2,
      THEN mp, OF f2]
  from p1 have t1: "tx_operations
     (holder_tx ?held Networks_TESTNET
        (remove_operations \<lparr>account_id = ''GHOLDER'', sequence = ''1'', balances = ?held\<rparr>
           ''USD'' ''GISSUER'' (Asset ''USD'' ''GISSUER'')) 180)
     = [Payment ''GISSUER'' (Asset ''USD'' ''GISSUER'') ''12.5000000'',
        ChangeTrust (Asset ''USD'' ''GISSUER'') ''0'']"
    by (simp add: trust_line_def)
  from m1 t1 p2 show ?thesis by (intro conjI)
qed




section \<open>The validity window\<close>




section \<open>Ledger rejections\<close>

text \<open>
  The claim and reject routes answer a rejection that carries result codes with the
  serialised codes.
\<close>

lemma extract_errorMsg_codes:
  "extract_errorMsg k d
     (Error m (Some \<lparr>resp_status = s, resp_title = t, resp_result_codes = Some rc\<rparr>))
   = ''Transaction failed: '' @ JSON_stringify k rc"
  by (simp add: extract_errorMsg_def)

text \<open>
  C8. A Remove-Trustline request for \<^verbatim>\<open>USD:GISSUER\<close> whose submission the ledger rejects
  with the result codes \<^verbatim>\<open>{transaction: "tx_failed", operations: ["op_no_trust"]}\<close>: the
  route answers with the bare message of the error, and the result codes are not in
  the payload. The claim route, on the same rejection, answers with the serialised
  codes, which is what the claim states for every operation.
\<close>

theorem remove_rejection_drops_codes:
  "fst (remove_POST (sdk_with derive_any)
          (gateway_with [trust_line ''USD'' ''GISSUER'' ''0''] [] refuse)
          secret_SA55 ''testnet'' ''USD'' ''GISSUER'')
     = Json_error 400 ''Request failed with status code 400''
   \<and> fst (claim_POST (sdk_with derive_any)
          (gateway_with [] [cb_record ''b1'' ''native'' ''5.0000000''] refuse)
          secret_SA55 ''testnet'' ''b1'')
     = Json_error 400 (''Transaction failed: '' @ stringify_codes codes_no_trust)"
  by (simp add: remove_POST_def claim_POST_def example_defs route_defs)

theorem remove_rejection_drops_codes_witness:
  "fst (remove_POST (sdk_with derive_any)
          (gateway_with [trust_line ''USD'' ''GISSUER'' ''0''] [] refuse)
          secret_SA55 ''testnet'' ''USD'' ''GISSUER'')
     \<noteq> Json_error 400 (''Transaction failed: '' @ stringify_codes codes_no_trust)"
  using remove_rejection_drops_codes by simp

section \<open>Malformed secrets\<close>

text \<open>
  C4, as the code has it. For a non-empty secret with the wrong leading character or
  the wrong length, the claim, reject, remove-trustline and the two listing routes,
  given their other required fields, answer 400 \<^verbatim>\<open>Invalid secret key format\<close> and issue
  no Horizon call. They give the same answer, again with no Horizon call, for any
  non-empty secret that the key derivation refuses, when the network is \<^verbatim>\<open>public\<close> or
  \<^verbatim>\<open>testnet\<close>.
\<close>

theorem malformed_secret_rejected:
  assumes "secretKey \<noteq> ''''"
    and "balanceId \<noteq> ''''" and "assetCode \<noteq> ''''" and "assetIssuer \<noteq> ''''"
    and "(network \<noteq> '''' \<and> (\<not> startsWith secretKey ''S'' \<or> length secretKey \<noteq> 56))
         \<or> ((network = ''public'' \<or> network = ''testnet'')
             \<and> (\<exists>e. fromSecret k secretKey = Inl e))"
  shows "claim_POST k gw secretKey network balanceId
           = (Json_error 400 ''Invalid secret key format'', [])
       \<and> reject_POST k gw secretKey network balanceId
           = (Json_error 400 ''Invalid secret key format'', [])
       \<and> remove_POST k gw secretKey network assetCode assetIssuer
           = (Json_error 400 ''Invalid secret key format'', [])
       \<and> claimable_load_POST k gw secretKey network
           = (Json_error 400 ''Invalid secret key format'', [])
       \<and> trustlines_load_POST k gw secretKey network
           = (Json_error 400 ''Invalid secret key format'', [])"
proof -
  from assms(5) have n: "network \<noteq> ''''" by auto
  have c: "claim_POST k gw secretKey network balanceId
             = (Json_error 400 ''Invalid secret key format'', [])"
    using assms(1,2,5) n by (auto simp: claim_POST_def)
  have r: "reject_POST k gw secretKey network balanceId
             = (Json_error 400 ''Invalid secret key format'', [])"
    using assms(1,2,5) n by (auto simp: reject_POST_def)
  have m: "remove_POST k gw secretKey network assetCode assetIssuer
             = (Json_error 400 ''Invalid secret key format'', [])"
    using assms(1,3,4,5) n by (auto simp: remove_POST_def)
  have l: "claimable_load_POST k gw secretKey network
             = (Json_error 400 ''Invalid secret key format'', [])"
    using assms(1,5) n by (auto simp: claimable_load_POST_def)
  have t: "trustlines_load_POST k gw secretKey network
             = (Json_error 400 ''Invalid secret key format'', [])"
    using assms(1,5) n by (auto simp: trustlines_load_POST_def)
  from c r m l t show ?thesis by (intro conjI)
qed

text \<open>
  A secret of the wrong length, and the secret \<^verbatim>\<open>S\<close> followed by 55 \<^verbatim>\<open>A\<close>, which has the
  right shape and which the key derivation refuses.
\<close>

theorem malformed_secret_rejected_witness:
  "claim_POST (sdk_with derive_any) (gateway_with [] [] accept) ''SHORT'' ''testnet'' ''b1''
     = (Json_error 400 ''Invalid secret key format'', [])
   \<and> startsWith secret_SA55 ''S'' \<and> length secret_SA55 = 56
   \<and> remove_POST (sdk_with derive_none) (gateway_with [] [] accept) secret_SA55 ''testnet''
       ''USD'' ''GISSUER''
     = (Json_error 400 ''Invalid secret key format'', [])"
proof -
  have a: "(''testnet'' \<noteq> '''' \<and> (\<not> startsWith ''SHORT'' ''S'' \<or> length ''SHORT'' \<noteq> 56))
         \<or> ((''testnet'' = ''public'' \<or> ''testnet'' = ''testnet'')
             \<and> (\<exists>e. fromSecret (sdk_with derive_any) ''SHORT'' = Inl e))"
    by simp
  have b: "(''testnet'' \<noteq> '''' \<and> (\<not> startsWith secret_SA55 ''S'' \<or> length secret_SA55 \<noteq> 56))
         \<or> ((''testnet'' = ''public'' \<or> ''testnet'' = ''testnet'')
             \<and> (\<exists>e. fromSecret (sdk_with derive_none) secret_SA55 = Inl e))"
    by (simp add: sdk_with_def derive_none_def)
  have s: "startsWith secret_SA55 ''S'' \<and> length secret_SA55 = 56"
    by (simp add: startsWith_def secret_SA55_def)
  have ne: "secret_SA55 \<noteq> ''''" by (simp add: secret_SA55_def)
  note w1 = malformed_secret_rejected [where secretKey = "''SHORT''" and balanceId = "''b1''"
      and assetCode = "''USD''" and assetIssuer = "''GISSUER''" and network = "''testnet''"
      and k = "sdk_with derive_any" and gw = "gateway_with [] [] accept", OF _ _ _ _ a,
      THEN conjunct1]
  note w2 = malformed_secret_rejected [where secretKey = secret_SA55 and balanceId = "''b1''"
      and assetCode = "''USD''" and assetIssuer = "''GISSUER''" and network = "''testnet''"
      and k = "sdk_with derive_none" and gw = "gateway_with [] [] accept", OF ne _ _ _ b,
      THEN conjunct2, THEN conjunct2, THEN conjunct1]
  have 1: "claim_POST (sdk_with derive_any) (gateway_with [] [] accept) ''SHORT'' ''testnet''
             ''b1'' = (Json_error 400 ''Invalid secret key format'', [])"
    by (rule w1) simp_all
  have 2: "remove_POST (sdk_with derive_none) (gateway_with [] [] accept) secret_SA55
             ''testnet'' ''USD'' ''GISSUER''
             = (Json_error 400 ''Invalid secret key format'', [])"
    by (rule w2) simp_all
  from 1 s 2 show ?thesis by simp
qed

text \<open>
  The claim as stated fails in two ways. An empty secret, which has the wrong length,
  is answered by the claim route as a missing field. And the send route, which has no
  check of the secret's shape, answers the secret \<^verbatim>\<open>S\<close> followed by 55 \<^verbatim>\<open>A\<close>, refused by
  the key derivation with the message \<^verbatim>\<open>invalid checksum\<close>, with status 500 and
  \<^verbatim>\<open>Failed to send asset\<close>.
\<close>

theorem malformed_secret_counterexample:
  "claim_POST (sdk_with derive_none) (gateway_with [] [] accept) '''' ''testnet'' ''b1''
     = (Json_error 400 ''Missing required fields'', [])
   \<and> send_POST (sdk_with derive_none) (gateway_with [] [] accept) secret_SA55 ''testnet''
       ''GDEST'' ''XLM'' '''' ''1''
     = (Json_error 500 ''Failed to send asset'', [])"
  by (simp add: claim_POST_def send_POST_def send_catch_def sdk_with_def derive_none_def
      secret_SA55_def startsWith_def)

section \<open>Malformed asset identifiers\<close>







section \<open>The bulk loop\<close>

text \<open>One pass of the loop body, by the outcome of its request.\<close>

lemma bulk_step_fields:
  assumes "fetch (world st) (request_for action secretKey network b) = (out, w)"
  shows "requests (bulk_step fetch action secretKey network st b)
           = requests st @ [request_for action secretKey network b]"
    and "world (bulk_step fetch action secretKey network st b) = w"
    and "successCount (bulk_step fetch action secretKey network st b)
           = successCount st + (if succeeded out then 1 else 0)"
    and "errors (bulk_step fetch action secretKey network st b)
           = errors st @ (if succeeded out then [] else [failure_message b out])"
  using assms
  by (cases out; simp add: bulk_step_def request_for_def Let_def)+

text \<open>
  The loop sends one request per target, in the order of the targets, whatever the
  outcomes; it counts the successes and lists, in order, the messages of the failures.
\<close>

lemma bulk_loop_result:
  "requests (bulk_loop fetch action secretKey network st bs)
     = requests st @ map (request_for action secretKey network) bs
   \<and> world (bulk_loop fetch action secretKey network st bs)
     = snd (run_fetch fetch (world st) (map (request_for action secretKey network) bs))
   \<and> successCount (bulk_loop fetch action secretKey network st bs)
     = successCount st
       + length (filter succeeded
           (fst (run_fetch fetch (world st) (map (request_for action secretKey network) bs))))
   \<and> errors (bulk_loop fetch action secretKey network st bs)
     = errors st
       @ map (\<lambda>(b, out). failure_message b out)
           (filter (\<lambda>(b, out). \<not> succeeded out)
              (zip bs
                 (fst (run_fetch fetch (world st)
                         (map (request_for action secretKey network) bs)))))"
proof (induction bs arbitrary: st)
  case Nil
  show ?case by simp
next
  case (Cons b bs)
  obtain out w where f: "fetch (world st) (request_for action secretKey network b) = (out, w)"
    by (cases "fetch (world st) (request_for action secretKey network b)")
  obtain outs w2 where r:
    "run_fetch fetch w (map (request_for action secretKey network) bs) = (outs, w2)"
    by (cases "run_fetch fetch w (map (request_for action secretKey network) bs)")
  note s = bulk_step_fields [where fetch = fetch and st = st and out = out and w = w, OF f]
  note ih = Cons.IH [of "bulk_step fetch action secretKey network st b"]
  show ?case
    using ih by (simp add: s f r)
qed

lemma bulk_loop_count:
  "successCount (bulk_loop fetch action secretKey network st bs)
     + length (errors (bulk_loop fetch action secretKey network st bs))
   = successCount st + length (errors st) + length bs"
proof (induction bs arbitrary: st)
  case Nil
  show ?case by simp
next
  case (Cons b bs)
  obtain out w where f: "fetch (world st) (request_for action secretKey network b) = (out, w)"
    by (cases "fetch (world st) (request_for action secretKey network b)")
  show ?case
    using Cons.IH [of "bulk_step fetch action secretKey network st b"]
    by (simp add: bulk_step_fields [where fetch = fetch and st = st and out = out and w = w,
          OF f])
qed

text \<open>
  C6. For a non-empty selection, the bulk handler produces a report in which: the
  requests sent are those for the selected balances, one each, in the order of the list
  (so an earlier failure stops nothing); the success counter is the number of requests
  that succeeded; and the failure list holds, in order, one entry
  \<^verbatim>\<open><amount> <asset>: <error message>\<close> for each request that failed.
\<close>

theorem bulk_each_target_once:
  assumes "selected \<noteq> {}"
  shows "\<exists>rep.
     handleBulkProcess fetch mode secretKey network shown selected w = Some rep
     \<and> world rep
       = snd (run_fetch fetch w
           (map (request_for (if mode = ''claim'' then ''claim'' else ''reject'')
                   secretKey network)
              (filter (\<lambda>b. lb_id b \<in> selected) shown)))
     \<and> requests rep
       = map (request_for (if mode = ''claim'' then ''claim'' else ''reject'') secretKey network)
           (filter (\<lambda>b. lb_id b \<in> selected) shown)
     \<and> successCount rep
       = length (filter succeeded
           (fst (run_fetch fetch w
              (map (request_for (if mode = ''claim'' then ''claim'' else ''reject'')
                      secretKey network)
                 (filter (\<lambda>b. lb_id b \<in> selected) shown)))))
     \<and> errors rep
       = map (\<lambda>(b, out). failure_message b out)
           (filter (\<lambda>(b, out). \<not> succeeded out)
              (zip (filter (\<lambda>b. lb_id b \<in> selected) shown)
                 (fst (run_fetch fetch w
                    (map (request_for (if mode = ''claim'' then ''claim'' else ''reject'')
                            secretKey network)
                       (filter (\<lambda>b. lb_id b \<in> selected) shown))))))"
  using assms
    bulk_loop_result [of fetch "if mode = ''claim'' then ''claim'' else ''reject''" secretKey
      network "\<lparr>successCount = 0, errors = [], requests = [], world = w\<rparr>"
      "filter (\<lambda>b. lb_id b \<in> selected) shown"]
  by (simp add: handleBulkProcess_def Let_def)

text \<open>
  A bulk reject of the three balances \<^verbatim>\<open>b1\<close>, \<^verbatim>\<open>b2\<close>, \<^verbatim>\<open>b3\<close> against the reject route, on
  a ledger that refuses the transaction claiming \<^verbatim>\<open>b2\<close>: three requests are sent, in
  order; two succeed; the failure list has the one entry of \<^verbatim>\<open>b2\<close>, with the ledger's
  result codes; and all three transactions, the third included, reach the ledger.
\<close>

lemma three_shown_eq:
  "three_shown =
     [\<lparr>lb_id = ''b1'', lb_amount = ''1.0000000'', lb_asset = ''USD'',
        lb_assetIssuer = ''GISSUER'', lb_sponsor = ''GSPONSOR''\<rparr>,
      \<lparr>lb_id = ''b2'', lb_amount = ''2.0000000'', lb_asset = ''EUR'',
        lb_assetIssuer = ''GISSUER'', lb_sponsor = ''GSPONSOR''\<rparr>,
      \<lparr>lb_id = ''b3'', lb_amount = ''3.0000000'', lb_asset = ''USD'',
        lb_assetIssuer = ''GISSUER'', lb_sponsor = ''GSPONSOR''\<rparr>]"
  by (simp add: three_shown_def three_records_def List.map_filter_def load_record_def
      cb_record_def)

lemma reject_issued_example:
  "i \<in> {''b1'', ''b2'', ''b3''} \<Longrightarrow>
   find (\<lambda>r. cb_id r = i) three_records = Some (cb_record i a amount) \<Longrightarrow>
   split CHR '':'' a = [code, issuer] \<Longrightarrow>
   reject_POST (sdk_with derive_any) (gateway_with [] three_records (refuse_claim_of ''b2''))
      secret_SA55 ''testnet'' i
   = ((if i = ''b2'' then
         Json_error 400 (''Transaction failed: '' @ stringify_codes codes_no_trust)
       else Json_success ''Balance rejected'' ''HASH''),
      [LoadAccount horizon_testnet ''GHOLDER'', ClaimableBalance horizon_testnet i,
       SubmitTransaction horizon_testnet
         (holder_tx [] Networks_TESTNET
            [ChangeTrust (Asset code issuer) ''922337203685.4775807'',
             ClaimClaimableBalance i, Payment ''GSPONSOR'' (Asset code issuer) amount,
             ChangeTrust (Asset code issuer) ''0''] 180)])"
  using split_two_parts [of a code issuer]
  by (auto simp: reject_POST_def example_defs route_defs)

lemma three_rejects:
  "run_fetch
     (api_fetch (sdk_with derive_any)
        (gateway_with [] three_records (refuse_claim_of ''b2'')))
     [] (map (request_for ''reject'' secret_SA55 ''testnet'') three_shown)
   = ([Responded True '''',
       Responded False (''Transaction failed: '' @ stringify_codes codes_no_trust),
       Responded True ''''],
      [LoadAccount horizon_testnet ''GHOLDER'', ClaimableBalance horizon_testnet ''b1'',
       SubmitTransaction horizon_testnet
         (holder_tx [] Networks_TESTNET
            [ChangeTrust (Asset ''USD'' ''GISSUER'') ''922337203685.4775807'',
             ClaimClaimableBalance ''b1'',
             Payment ''GSPONSOR'' (Asset ''USD'' ''GISSUER'') ''1.0000000'',
             ChangeTrust (Asset ''USD'' ''GISSUER'') ''0''] 180),
       LoadAccount horizon_testnet ''GHOLDER'', ClaimableBalance horizon_testnet ''b2'',
       SubmitTransaction horizon_testnet
         (holder_tx [] Networks_TESTNET
            [ChangeTrust (Asset ''EUR'' ''GISSUER'') ''922337203685.4775807'',
             ClaimClaimableBalance ''b2'',
             Payment ''GSPONSOR'' (Asset ''EUR'' ''GISSUER'') ''2.0000000'',
             ChangeTrust (Asset ''EUR'' ''GISSUER'') ''0''] 180),
       LoadAccount horizon_testnet ''GHOLDER'', ClaimableBalance horizon_testnet ''b3'',
       SubmitTransaction horizon_testnet
         (holder_tx [] Networks_TESTNET
            [ChangeTrust (Asset ''USD'' ''GISSUER'') ''922337203685.4775807'',
             ClaimClaimableBalance ''b3'',
             Payment ''GSPONSOR'' (Asset ''USD'' ''GISSUER'') ''3.0000000'',
             ChangeTrust (Asset ''USD'' ''GISSUER'') ''0''] 180)])"
proof -
  have 1: "find (\<lambda>r. cb_id r = ''b1'') three_records
             = Some (cb_record ''b1'' ''USD:GISSUER'' ''1.0000000'')"
    by (simp add: three_records_def cb_record_def)
  have 2: "find (\<lambda>r. cb_id r = ''b2'') three_records
             = Some (cb_record ''b2'' ''EUR:GISSUER'' ''2.0000000'')"
    by (simp add: three_records_def cb_record_def)
  have 3: "find (\<lambda>r. cb_id r = ''b3'') three_records
             = Some (cb_record ''b3'' ''USD:GISSUER'' ''3.0000000'')"
    by (simp add: three_records_def cb_record_def)
  have u: "split CHR '':'' ''USD:GISSUER'' = [''USD'', ''GISSUER'']" by simp
  have e: "split CHR '':'' ''EUR:GISSUER'' = [''EUR'', ''GISSUER'']" by simp
  show ?thesis
    by (simp add: three_shown_eq request_for_def api_fetch_def
        reject_issued_example [OF _ 1 u] reject_issued_example [OF _ 2 e]
        reject_issued_example [OF _ 3 u])
qed

theorem bulk_each_target_once_witness:
  "map_option (\<lambda>rep. map req_balanceId (requests rep))
     (handleBulkProcess
        (api_fetch (sdk_with derive_any)
           (gateway_with [] three_records (refuse_claim_of ''b2'')))
        ''reject'' secret_SA55 ''testnet'' three_shown {''b1'', ''b2'', ''b3''} [])
     = Some [''b1'', ''b2'', ''b3'']
   \<and> map_option successCount
     (handleBulkProcess
        (api_fetch (sdk_with derive_any)
           (gateway_with [] three_records (refuse_claim_of ''b2'')))
        ''reject'' secret_SA55 ''testnet'' three_shown {''b1'', ''b2'', ''b3''} [])
     = Some 2
   \<and> map_option errors
     (handleBulkProcess
        (api_fetch (sdk_with derive_any)
           (gateway_with [] three_records (refuse_claim_of ''b2'')))
        ''reject'' secret_SA55 ''testnet'' three_shown {''b1'', ''b2'', ''b3''} [])
     = Some [''2.0000000 EUR: Transaction failed: '' @ stringify_codes codes_no_trust]
   \<and> map_option (\<lambda>rep. map (\<lambda>tx. ClaimClaimableBalance ''b3'' \<in> set (tx_operations tx))
                          (submitted (world rep)))
     (handleBulkProcess
        (api_fetch (sdk_with derive_any)
           (gateway_with [] three_records (refuse_claim_of ''b2'')))
        ''reject'' secret_SA55 ''testnet'' three_shown {''b1'', ''b2'', ''b3''} [])
     = Some [False, False, True]"
proof -
  have ne: "{''b1'', ''b2'', ''b3''} \<noteq> ({} :: string set)" by simp
  have sel: "filter (\<lambda>b. lb_id b \<in> {''b1'', ''b2'', ''b3''}) three_shown = three_shown"
    by (simp add: three_shown_eq)
  have act: "(if ''reject'' = ''claim'' then ''claim'' else ''reject'') = ''reject''"
    by simp
  note t = bulk_each_target_once [OF ne, of
      "api_fetch (sdk_with derive_any) (gateway_with [] three_records (refuse_claim_of ''b2''))"
      "''reject''" secret_SA55 "''testnet''" three_shown "[]",
      unfolded sel act three_rejects fst_conv snd_conv]
  then obtain rep where h: "handleBulkProcess
        (api_fetch (sdk_with derive_any)
           (gateway_with [] three_records (refuse_claim_of ''b2'')))
        ''reject'' secret_SA55 ''testnet'' three_shown {''b1'', ''b2'', ''b3''} [] = Some rep"
    and w: "submitted (world rep)
              = [holder_tx [] Networks_TESTNET
                   [ChangeTrust (Asset ''USD'' ''GISSUER'') ''922337203685.4775807'',
                    ClaimClaimableBalance ''b1'',
                    Payment ''GSPONSOR'' (Asset ''USD'' ''GISSUER'') ''1.0000000'',
                    ChangeTrust (Asset ''USD'' ''GISSUER'') ''0''] 180,
                 holder_tx [] Networks_TESTNET
                   [ChangeTrust (Asset ''EUR'' ''GISSUER'') ''922337203685.4775807'',
                    ClaimClaimableBalance ''b2'',
                    Payment ''GSPONSOR'' (Asset ''EUR'' ''GISSUER'') ''2.0000000'',
                    ChangeTrust (Asset ''EUR'' ''GISSUER'') ''0''] 180,
                 holder_tx [] Networks_TESTNET
                   [ChangeTrust (Asset ''USD'' ''GISSUER'') ''922337203685.4775807'',
                    ClaimClaimableBalance ''b3'',
                    Payment ''GSPONSOR'' (Asset ''USD'' ''GISSUER'') ''3.0000000'',
                    ChangeTrust (Asset ''USD'' ''GISSUER'') ''0''] 180]"
    and q: "requests rep = map (request_for ''reject'' secret_SA55 ''testnet'') three_shown"
    and c: "successCount rep = 2"
    and e: "errors rep
              = [''2.0000000 EUR: Transaction failed: '' @ stringify_codes codes_no_trust]"
    by (auto simp: three_shown_eq)
  have 1: "map req_balanceId (requests rep) = [''b1'', ''b2'', ''b3'']"
    by (simp add: q three_shown_eq request_for_def)
  have 4: "map (\<lambda>tx. ClaimClaimableBalance ''b3'' \<in> set (tx_operations tx))
             (submitted (world rep)) = [False, False, True]"
    by (simp add: w holder_tx_def)
  from h 1 c e 4 show ?thesis by simp
qed

section \<open>The bulk report\<close>

text \<open>
  C3, as the code has it. For a non-empty selection the bulk handler produces a report
  with \<open>successCount + length errors = N\<close>, where \<open>N\<close> is the number of targets, the
  listed balances whose id is selected, each of which was sent one request; this holds
  for every \<open>N\<close>, and for \<open>N = 0\<close> (no selected id is listed) the report has
  \<open>successCount = 0\<close> and no failure. For an empty selection the handler returns at once
  and produces no report.
\<close>

theorem bulk_report_count:
  "(selected \<noteq> {} \<longrightarrow>
      (\<exists>rep. handleBulkProcess fetch mode secretKey network shown selected w = Some rep
         \<and> successCount rep + length (errors rep)
           = length (filter (\<lambda>b. lb_id b \<in> selected) shown)
         \<and> length (requests rep) = length (filter (\<lambda>b. lb_id b \<in> selected) shown)
         \<and> (filter (\<lambda>b. lb_id b \<in> selected) shown = []
              \<longrightarrow> successCount rep = 0 \<and> errors rep = [])))
   \<and> handleBulkProcess fetch mode secretKey network shown {} w = None"
proof -
  let ?st = "\<lparr>successCount = 0, errors = [], requests = [], world = w\<rparr>"
  let ?action = "if mode = ''claim'' then ''claim'' else ''reject''"
  let ?targets = "filter (\<lambda>b. lb_id b \<in> selected) shown"
  let ?rep = "bulk_loop fetch ?action secretKey network ?st ?targets"
  have c: "successCount ?rep + length (errors ?rep) = length ?targets"
    using bulk_loop_count [of fetch ?action secretKey network ?st ?targets] by simp
  have q: "length (requests ?rep) = length ?targets"
    using bulk_loop_result [of fetch ?action secretKey network ?st ?targets] by simp
  have z: "?targets = [] \<longrightarrow> successCount ?rep = 0 \<and> errors ?rep = []"
    by simp
  have s: "selected \<noteq> {} \<longrightarrow>
             handleBulkProcess fetch mode secretKey network shown selected w = Some ?rep"
    by (simp add: handleBulkProcess_def Let_def)
  have n: "handleBulkProcess fetch mode secretKey network shown {} w = None"
    by (simp add: handleBulkProcess_def)
  from c q z s n show ?thesis by blast
qed

text \<open>
  The bulk reject of three balances, one of them refused by the ledger: two successes
  and one failure, three targets. And a selection that names no listed balance: a
  report with no success and no failure.
\<close>

theorem bulk_report_count_witness:
  "map_option (\<lambda>rep. (successCount rep, length (errors rep), length (requests rep)))
     (handleBulkProcess
        (api_fetch (sdk_with derive_any)
           (gateway_with [] three_records (refuse_claim_of ''b2'')))
        ''reject'' secret_SA55 ''testnet'' three_shown {''b1'', ''b2'', ''b3''} [])
     = Some (2, 1, 3)
   \<and> map_option (\<lambda>rep. (successCount rep, errors rep, requests rep))
     (handleBulkProcess
        (api_fetch (sdk_with derive_any)
           (gateway_with [] three_records (refuse_claim_of ''b2'')))
        ''reject'' secret_SA55 ''testnet'' three_shown {''b9''} [])
     = Some (0, [], [])"
proof -
  let ?fetch = "api_fetch (sdk_with derive_any)
                  (gateway_with [] three_records (refuse_claim_of ''b2''))"
  have ne: "{''b1'', ''b2'', ''b3''} \<noteq> ({} :: string set)" by simp
  have sel: "filter (\<lambda>b. lb_id b \<in> {''b1'', ''b2'', ''b3''}) three_shown = three_shown"
    by (simp add: three_shown_eq)
  have len: "length three_shown = 3"
    by (simp add: three_shown_eq)
  note t = bulk_report_count [THEN conjunct1, THEN mp, OF ne, of ?fetch "''reject''"
      secret_SA55 "''testnet''" three_shown "[]", unfolded sel len]
  then obtain rep where h: "handleBulkProcess ?fetch ''reject'' secret_SA55 ''testnet''
                              three_shown {''b1'', ''b2'', ''b3''} [] = Some rep"
    and c: "successCount rep + length (errors rep) = 3"
    and q: "length (requests rep) = 3"
    by auto
  have r: "bulk_loop ?fetch ''reject'' secret_SA55 ''testnet''
             \<lparr>successCount = 0, errors = [], requests = [], world = []\<rparr> three_shown = rep"
    using h by (simp add: handleBulkProcess_def sel [simplified])
  note b = bulk_loop_result [of ?fetch "''reject''" secret_SA55 "''testnet''"
      "\<lparr>successCount = 0, errors = [], requests = [], world = []\<rparr>" three_shown,
      unfolded r, THEN conjunct2, THEN conjunct2, THEN conjunct1]
  have s: "successCount rep = 2"
    using b by (simp add: three_rejects)
  from c s have e: "length (errors rep) = 1" by simp
  have 1: "map_option (\<lambda>rep. (successCount rep, length (errors rep), length (requests rep)))
     (handleBulkProcess ?fetch ''reject'' secret_SA55 ''testnet'' three_shown
        {''b1'', ''b2'', ''b3''} []) = Some (2, 1, 3)"
    by (simp add: h s e q)
  have 2: "map_option (\<lambda>rep. (successCount rep, errors rep, requests rep))
     (handleBulkProcess ?fetch ''reject'' secret_SA55 ''testnet'' three_shown {''b9''} [])
     = Some (0, [], [])"
    by (simp add: handleBulkProcess_def three_shown_eq)
  from 1 2 show ?thesis by (rule conjI)
qed

text \<open>
  The claim as stated fails on the empty selection: zero targets, and there is no report
  at all, hence none with \<open>successCount = 0\<close>.
\<close>

theorem bulk_empty_selection_counterexample:
  "handleBulkProcess
     (api_fetch (sdk_with derive_any)
        (gateway_with [] three_records (refuse_claim_of ''b2'')))
     ''reject'' secret_SA55 ''testnet'' three_shown {} [] = None"
  by (simp add: handleBulkProcess_def)

end
